theory Spec2Isabelle
  imports Complex_Main
begin

section \<open>Data model\<close>

text \<open>
  Row and user identities (uuids) and instants (the ISO strings produced by
  \<open>new Date().toISOString()\<close> and \<open>now()\<close>) are natural numbers. A JavaScript string is
  the list of its UTF-16 code units, so \<open>length\<close> is the source's \<open>.length\<close>.
\<close>

type_synonym uuid = nat
type_synonym timestamp = nat
type_synonym jsstring = "nat list"

text \<open>The \<open>Message\<close> interface of the chat component, one row of \<open>chat_messages\<close>.\<close>

record message =
  m_id :: uuid
  m_conversation_id :: uuid
  m_user_id :: uuid
  m_message :: jsstring
  m_is_support :: bool
  m_created_at :: timestamp
  m_attachment_url :: "jsstring option"
  m_attachment_type :: "jsstring option"
  m_read_at :: "timestamp option"

text \<open>One row of \<open>chat_conversations\<close>; \<open>status\<close> is a text column, \<open>'active'\<close> by default.\<close>

record conversation =
  c_id :: uuid
  c_user_id :: uuid
  c_status :: string

text \<open>
  One row of \<open>profiles\<close>, with the columns the chat reads. \<open>full_name\<close> is a nullable
  text column in the first migration.
\<close>

record user_profile =
  p_user_id :: uuid
  p_full_name :: "jsstring option"
  p_is_admin :: bool

text \<open>
  One row of \<open>chat_typing_status\<close>; the change feed delivers whole rows, and the chat
  keeps them in its \<open>typingStatus\<close> list.
\<close>

record typing_status =
  t_id :: uuid
  t_conversation_id :: uuid
  t_user_id :: uuid
  t_is_typing :: bool
  t_last_updated :: timestamp

text \<open>A browser \<open>File\<close>: name, size in bytes and content type.\<close>

record js_file =
  f_name :: jsstring
  f_size :: nat
  f_type :: jsstring

text \<open>
  A timer armed by \<open>setTimeout\<close>: its handle, the instant it is due, and the conversation
  and user identities its callback closed over when it was armed.
\<close>

record timer =
  tm_id :: nat
  tm_due :: timestamp
  tm_conversation :: uuid
  tm_user :: uuid

text \<open>
  A call of \<open>updateTypingStatus\<close> that is suspended at its \<open>await\<close>: its argument and
  the identities of its closure.
\<close>

record suspended =
  sp_isTyping :: bool
  sp_conversation :: uuid
  sp_user :: uuid

text \<open>The row object the chat passes to \<open>from('chat_messages').insert\<close>.\<close>

record new_message =
  nm_conversation_id :: "uuid option"
  nm_user_id :: uuid
  nm_message :: jsstring
  nm_is_support :: bool
  nm_attachment_url :: "jsstring option"
  nm_attachment_type :: "jsstring option"

text \<open>
  A calendar date. The form's \<open>date_of_birth\<close> is the \<open>YYYY-MM-DD\<close> string of a date
  input or of the \<open>date\<close> column.
\<close>

record date =
  d_year :: int
  d_month :: nat
  d_day :: nat

text \<open>A JavaScript number as \<open>parseFloat\<close> returns it: \<open>NaN\<close> or a finite value.\<close>

datatype jsnumber = NaN | Num real

text \<open>
  The \<open>profile\<close> state of the profile form, a \<open>Partial<UserProfile>\<close>: \<open>None\<close> is a
  field that is \<open>undefined\<close> or \<open>null\<close>; for \<open>date_of_birth\<close> also the empty string.
\<close>

record profile_form =
  full_name :: "jsstring option"
  address :: "jsstring option"
  phone :: "jsstring option"
  date_of_birth :: "date option"
  employment_status :: "jsstring option"
  monthly_income :: "jsnumber option"

text \<open>The \<open>ValidationErrors\<close> object: a message for each field that fails.\<close>

record validation_errors =
  e_full_name :: "string option"
  e_phone :: "string option"
  e_address :: "string option"
  e_date_of_birth :: "string option"
  e_monthly_income :: "string option"

section \<open>Effects\<close>

text \<open>
  What a handler does besides updating the component state, in the order it does it: the
  requests it sends to the backend (auth, tables, object storage) and the notifications it
  shows or logs.
\<close>

datatype effect =
    AuthGetUser
  | SelectProfile uuid
  | SelectActiveConversation uuid
  | InsertConversation uuid
  | SelectMessages "uuid option"
  | MarkMessageAsRead uuid timestamp
  | UpsertTypingStatus uuid uuid bool timestamp
  | StorageUpload uuid jsstring js_file
  | InsertMessage new_message
  | UpsertProfile uuid profile_form
  | ToastError string
  | ToastSuccess string
  | ConsoleError string

fun is_request :: "effect \<Rightarrow> bool" where
  "is_request (ToastError _) = False"
| "is_request (ToastSuccess _) = False"
| "is_request (ConsoleError _) = False"
| "is_request _ = True"

section \<open>JavaScript strings\<close>

text \<open>
  \<open>String.prototype.trim\<close> strips the code units of ECMAScript's WhiteSpace and
  LineTerminator productions from both ends.
\<close>

definition white_space :: "nat list" where
  "white_space = [9, 10, 11, 12, 13, 32, 160, 5760, 8192, 8193, 8194, 8195, 8196, 8197, 8198,
     8199, 8200, 8201, 8202, 8232, 8233, 8239, 8287, 12288, 65279]"

definition is_white_space :: "nat \<Rightarrow> bool" where
  "is_white_space c = (c \<in> set white_space)"

definition trim :: "jsstring \<Rightarrow> jsstring" where
  "trim s = rev (dropWhile is_white_space (rev (dropWhile is_white_space s)))"

text \<open>\<open>!s\<close> for a string that may be \<open>null\<close> or \<open>undefined\<close>: those and \<open>''\<close> are falsy.\<close>

fun falsy_string :: "jsstring option \<Rightarrow> bool" where
  "falsy_string None = True"
| "falsy_string (Some s) = (s = [])"

section \<open>The chat component\<close>

text \<open>
  The state of one mounted \<open>ChatSupport\<close>: its \<open>useState\<close> cells, the
  \<open>typingTimeoutRef\<close>, the page's table of armed timers with the next handle
  \<open>setTimeout\<close> will hand out, and the calls of \<open>updateTypingStatus\<close> that wait for
  their upsert to settle.
\<close>

record chat_state =
  messages :: "message list"
  newMessage :: jsstring
  loading :: bool
  conversationId :: "uuid option"
  userId :: "uuid option"
  profile :: "user_profile option"
  typingStatus :: "typing_status list"
  selectedFile :: "js_file option"
  uploadProgress :: nat
  typingTimeoutRef :: "nat option"
  timers :: "timer list"
  next_timer :: nat
  awaiting :: "suspended list"

definition initial_state :: chat_state where
  "initial_state = \<lparr>messages = [], newMessage = [], loading = True, conversationId = None,
     userId = None, profile = None, typingStatus = [], selectedFile = None,
     uploadProgress = 0, typingTimeoutRef = None, timers = [], next_timer = 1,
     awaiting = []\<rparr>"

subsection \<open>The backend as \<open>setupChat\<close> sees it\<close>

text \<open>
  The signed-in user of the session and the two tables \<open>setupChat\<close> queries. Neither
  table has a uniqueness constraint on \<open>user_id\<close> in the migrations.
\<close>

record backend =
  auth_user :: "uuid option"
  profiles :: "user_profile list"
  chat_conversations :: "conversation list"

text \<open>
  \<open>.single()\<close> asks for the result as one object: \<open>data\<close> is the row when the query
  matches exactly one row, and \<open>null\<close> (with an error) when it matches none or several.
\<close>

fun single :: "'a list \<Rightarrow> 'a option" where
  "single [x] = Some x"
| "single _ = None"

definition select_profile :: "uuid \<Rightarrow> backend \<Rightarrow> user_profile option" where
  "select_profile uid b = single (filter (\<lambda>p. p_user_id p = uid) (profiles b))"

definition active_conversations :: "uuid \<Rightarrow> backend \<Rightarrow> conversation list" where
  "active_conversations uid b =
     filter (\<lambda>c. c_user_id c = uid \<and> c_status c = ''active'') (chat_conversations b)"

definition select_active_conversation :: "uuid \<Rightarrow> backend \<Rightarrow> conversation option" where
  "select_active_conversation uid b = single (active_conversations uid b)"

text \<open>
  \<open>insert({user_id}).select().single()\<close>: the new row takes a fresh \<open>id\<close>
  (\<open>gen_random_uuid()\<close>, here the successor of the largest one in the table) and the
  default status. \<open>ok\<close> is False when the backend answers the request with an error.
\<close>

definition fresh_id :: "conversation list \<Rightarrow> uuid" where
  "fresh_id cs = Suc (fold max (map c_id cs) 0)"

definition insert_conversation :: "bool \<Rightarrow> uuid \<Rightarrow> backend \<Rightarrow> conversation option \<times> backend" where
  "insert_conversation ok uid b =
     (if ok
      then let c = \<lparr>c_id = fresh_id (chat_conversations b), c_user_id = uid, c_status = ''active''\<rparr>
           in (Some c, b\<lparr>chat_conversations := chat_conversations b @ [c]\<rparr>)
      else (None, b))"

subsection \<open>\<open>setupChat\<close> and the profile gate\<close>

text \<open>
  The effect that runs once when the component mounts. It returns the component state, the
  backend and the requests sent. \<open>insert_ok\<close> is the backend's answer to the insert,
  should one be sent.
\<close>

definition setupChat :: "bool \<Rightarrow> bool \<Rightarrow> backend \<Rightarrow> chat_state \<Rightarrow> chat_state \<times> backend \<times> effect list" where
  "setupChat isAdmin insert_ok b s =
     (case auth_user b of
        None \<Rightarrow> (s, b, [AuthGetUser])
      | Some uid \<Rightarrow>
          let s1 = s\<lparr>userId := Some uid\<rparr>;
              s2 = s1\<lparr>profile := select_profile uid b\<rparr>
          in if \<not> isAdmin
             then (case select_active_conversation uid b of
                     Some existingConv \<Rightarrow>
                       (s2\<lparr>conversationId := Some (c_id existingConv), loading := False\<rparr>, b,
                        [AuthGetUser, SelectProfile uid, SelectActiveConversation uid])
                   | None \<Rightarrow>
                       (case insert_conversation insert_ok uid b of
                          (Some newConv, b') \<Rightarrow>
                            (s2\<lparr>conversationId := Some (c_id newConv), loading := False\<rparr>, b',
                             [AuthGetUser, SelectProfile uid, SelectActiveConversation uid,
                              InsertConversation uid])
                        | (None, b') \<Rightarrow>
                            (s2\<lparr>loading := False\<rparr>, b',
                             [AuthGetUser, SelectProfile uid, SelectActiveConversation uid,
                              InsertConversation uid])))
             else (s2\<lparr>loading := False\<rparr>, b, [AuthGetUser, SelectProfile uid]))"

text \<open>
  What the component renders: the profile call-to-action when
  \<open>!profile?.full_name && !isAdmin\<close>, else the spinner while loading, else the thread
  with its compose form.
\<close>

datatype view = CompleteYourProfileFirst | Spinner | ChatThread

definition no_full_name :: "user_profile option \<Rightarrow> bool" where
  "no_full_name p = (case p of None \<Rightarrow> True | Some r \<Rightarrow> falsy_string (p_full_name r))"

definition render :: "bool \<Rightarrow> chat_state \<Rightarrow> view" where
  "render isAdmin s =
     (if no_full_name (profile s) \<and> \<not> isAdmin then CompleteYourProfileFirst
      else if loading s then Spinner
      else ChatThread)"

subsection \<open>The message feed\<close>

text \<open>
  The callback of the \<open>INSERT\<close> subscription on \<open>chat_messages\<close>: append the row, then
  call \<open>markMessageAsRead(payload.new.id)\<close>. \<open>MarkMessageAsRead\<close> in the effects is that
  call, with the time it stamps.
\<close>

definition onMessageInsert :: "timestamp \<Rightarrow> message \<Rightarrow> chat_state \<Rightarrow> chat_state \<times> effect list" where
  "onMessageInsert now payload s =
     (s\<lparr>messages := messages s @ [payload]\<rparr>, [MarkMessageAsRead (m_id payload) now])"

text \<open>
  \<open>fetchMessages\<close>, given the answer to its query (\<open>None\<close> when the query fails): store
  the rows, and mark those that are unread and not the viewer's own.
\<close>

definition fetchMessages :: "timestamp \<Rightarrow> message list option \<Rightarrow> chat_state \<Rightarrow> chat_state \<times> effect list" where
  "fetchMessages now answer s =
     (case answer of
        None \<Rightarrow>
          (s, [SelectMessages (conversationId s), ConsoleError ''Error fetching messages:'',
               ToastError ''Failed to load messages''])
      | Some data \<Rightarrow>
          (s\<lparr>messages := data\<rparr>,
           SelectMessages (conversationId s) #
           map (\<lambda>m. MarkMessageAsRead (m_id m) now)
             (filter (\<lambda>m. m_read_at m = None \<and> Some (m_user_id m) \<noteq> userId s) data)))"

subsection \<open>The typing feed\<close>

text \<open>
  The callback of the subscription on \<open>chat_typing_status\<close>: drop the entries of the
  payload's user, append the payload. The payload is the new row of an insert or update.
\<close>

definition onTypingStatus :: "typing_status \<Rightarrow> chat_state \<Rightarrow> chat_state" where
  "onTypingStatus payload s =
     s\<lparr>typingStatus :=
         filter (\<lambda>status. t_user_id status \<noteq> t_user_id payload) (typingStatus s) @ [payload]\<rparr>"

subsection \<open>The typing flag and its timer\<close>

definition clearTimeout :: "nat \<Rightarrow> chat_state \<Rightarrow> chat_state" where
  "clearTimeout h s = s\<lparr>timers := filter (\<lambda>t. tm_id t \<noteq> h) (timers s)\<rparr>"

text \<open>
  \<open>if (typingTimeoutRef.current) clearTimeout(typingTimeoutRef.current)\<close>; timer handles
  are positive numbers, hence truthy.
\<close>

definition cancel_pending :: "chat_state \<Rightarrow> chat_state" where
  "cancel_pending s = (case typingTimeoutRef s of Some h \<Rightarrow> clearTimeout h s | None \<Rightarrow> s)"

text \<open>
  \<open>updateTypingStatus\<close> up to its \<open>await\<close>, for the \<open>conversationId\<close> and \<open>userId\<close> of
  the render whose closure is running: the guard, the \<open>clearTimeout\<close>, and the upsert
  request, stamped with the instant \<open>now\<close> of the call. The call then waits for the
  request to settle; other handlers run in the meantime.
\<close>

definition updateTypingStatus_of ::
  "uuid option \<Rightarrow> uuid option \<Rightarrow> bool \<Rightarrow> timestamp \<Rightarrow> chat_state \<Rightarrow> chat_state \<times> effect list" where
  "updateTypingStatus_of conv user isTyping now s =
     (case (conv, user) of
        (Some cid, Some uid) \<Rightarrow>
          let s1 = cancel_pending s
          in (s1\<lparr>awaiting := awaiting s1 @
                  [\<lparr>sp_isTyping = isTyping, sp_conversation = cid, sp_user = uid\<rparr>]\<rparr>,
              [UpsertTypingStatus cid uid isTyping now])
      | _ \<Rightarrow> (s, []))"

definition updateTypingStatus :: "bool \<Rightarrow> timestamp \<Rightarrow> chat_state \<Rightarrow> chat_state \<times> effect list" where
  "updateTypingStatus isTyping now s =
     updateTypingStatus_of (conversationId s) (userId s) isTyping now s"

text \<open>
  \<open>typingTimeoutRef.current = setTimeout(() => updateTypingStatus(false), 3000)\<close> at the
  instant \<open>now\<close>: the new timer is due 3000 ms later and the ref moves to its handle.
\<close>

definition arm :: "uuid \<Rightarrow> uuid \<Rightarrow> timestamp \<Rightarrow> chat_state \<Rightarrow> chat_state" where
  "arm cid uid now s =
     s\<lparr>typingTimeoutRef := Some (next_timer s),
       timers := timers s @
         [\<lparr>tm_id = next_timer s, tm_due = now + 3000, tm_conversation = cid, tm_user = uid\<rparr>],
       next_timer := Suc (next_timer s)\<rparr>"

text \<open>
  \<open>updateTypingStatus\<close> after its \<open>await\<close>: the upsert of the \<open>n\<close>-th waiting call
  settles at the instant \<open>now\<close> and the call resumes with \<open>if (isTyping) ...\<close>.
  supabase-js reports a rejected request in its result and does not throw, and the result
  is not read, so the timer is armed whatever the backend answers.
\<close>

definition resume :: "nat \<Rightarrow> timestamp \<Rightarrow> chat_state \<Rightarrow> chat_state" where
  "resume n now s =
     (if n < length (awaiting s)
      then let call = awaiting s ! n;
               s1 = s\<lparr>awaiting := take n (awaiting s) @ drop (Suc n) (awaiting s)\<rparr>
           in if sp_isTyping call then arm (sp_conversation call) (sp_user call) now s1 else s1
      else s)"

text \<open>The compose input's \<open>onChange\<close> and \<open>onBlur\<close>.\<close>

definition onChange :: "jsstring \<Rightarrow> timestamp \<Rightarrow> chat_state \<Rightarrow> chat_state \<times> effect list" where
  "onChange v now s = updateTypingStatus (length v > 0) now (s\<lparr>newMessage := v\<rparr>)"

definition onBlur :: "timestamp \<Rightarrow> chat_state \<Rightarrow> chat_state \<times> effect list" where
  "onBlur now s = updateTypingStatus False now s"

text \<open>
  An armed timer with handle \<open>h\<close> that is due fires: it leaves the timer table and its
  callback calls \<open>updateTypingStatus(false)\<close> with the identities it closed over. A handle
  that is not armed, or not yet due, fires nothing.
\<close>

definition onTimeout :: "nat \<Rightarrow> timestamp \<Rightarrow> chat_state \<Rightarrow> chat_state \<times> effect list" where
  "onTimeout h now s =
     (case find (\<lambda>t. tm_id t = h \<and> tm_due t \<le> now) (timers s) of
        None \<Rightarrow> (s, [])
      | Some t \<Rightarrow>
          updateTypingStatus_of (Some (tm_conversation t)) (Some (tm_user t)) False now
            (clearTimeout h s))"

text \<open>
  A session of the compose input: what the event loop runs, in order. \<open>Settled n now\<close>
  is the upsert of the \<open>n\<close>-th waiting call settling.
\<close>

datatype event =
    Change jsstring timestamp
  | Blur timestamp
  | Timeout nat timestamp
  | Settled nat timestamp

fun handle :: "event \<Rightarrow> chat_state \<Rightarrow> chat_state \<times> effect list" where
  "handle (Change v now) s = onChange v now s"
| "handle (Blur now) s = onBlur now s"
| "handle (Timeout h now) s = onTimeout h now s"
| "handle (Settled n now) s = (resume n now s, [])"

fun run :: "event list \<Rightarrow> chat_state \<Rightarrow> chat_state" where
  "run [] s = s"
| "run (e # es) s = run es (fst (handle e s))"

text \<open>
  A session in which no two calls overlap: every event is followed at once by the settling
  of the upsert it sent, if it sent one, at the instant paired with it.
\<close>

fun serial :: "(event \<times> timestamp) list \<Rightarrow> event list" where
  "serial [] = []"
| "serial ((e, settled) # es) = e # Settled 0 settled # serial es"

text \<open>
  The condition under which the timer table and the ref agree: both identities are
  resolved, no call is waiting, and the table holds no timer, or only the one the ref
  points to, armed for these identities.
\<close>

definition tracked :: "uuid \<Rightarrow> uuid \<Rightarrow> chat_state \<Rightarrow> bool" where
  "tracked c u s =
     (conversationId s = Some c \<and> userId s = Some u \<and> awaiting s = [] \<and>
      (case timers s of
         [] \<Rightarrow> True
       | [t] \<Rightarrow> typingTimeoutRef s = Some (tm_id t) \<and> tm_conversation t = c \<and> tm_user t = u
       | _ \<Rightarrow> False))"

subsection \<open>Attaching and sending\<close>

text \<open>
  \<open>handleFileSelect\<close> on \<open>e.target.files?.[0]\<close>: nothing without a file, a toast and an
  early return above \<open>5 * 1024 * 1024\<close> bytes, otherwise the file is staged.
\<close>

definition handleFileSelect :: "js_file option \<Rightarrow> chat_state \<Rightarrow> chat_state \<times> effect list" where
  "handleFileSelect picked s =
     (case picked of
        None \<Rightarrow> (s, [])
      | Some f \<Rightarrow>
          if f_size f > 5 * 1024 * 1024
          then (s, [ToastError ''File size must be less than 5MB''])
          else (s\<lparr>selectedFile := Some f\<rparr>, []))"

text \<open>\<open>file.name.split('.').pop()\<close>: what follows the last dot (code unit 46), or the whole name.\<close>

definition fileExt :: "jsstring \<Rightarrow> jsstring" where
  "fileExt name = rev (takeWhile (\<lambda>c. c \<noteq> 46) (rev name))"

text \<open>
  \<open>uploadFile\<close> stores the file under \<open>userId/fileName\<close>, the name made of \<open>random\<close>
  (the digits of \<open>Math.random()\<close> in base 36) and the extension. \<open>StorageUpload\<close> carries
  the two parts of the path.
\<close>

definition uploadFile :: "jsstring \<Rightarrow> uuid \<Rightarrow> js_file \<Rightarrow> effect" where
  "uploadFile random uid f = StorageUpload uid (random @ [46] @ fileExt (f_name f)) f"

text \<open>\<open>x || null\<close> for a string.\<close>

definition or_null :: "jsstring \<Rightarrow> jsstring option" where
  "or_null x = (if x = [] then None else Some x)"

text \<open>
  The compose form's \<open>handleSubmit\<close>. \<open>uploaded\<close> is the answer to the upload (the public
  URL, or \<open>None\<close> when it fails), \<open>insert_ok\<close> the answer to the insert; each is read
  only if the request is sent. Progress reports of the upload are left out.
\<close>

definition handleSubmit ::
  "bool \<Rightarrow> jsstring \<Rightarrow> jsstring option \<Rightarrow> bool \<Rightarrow> chat_state \<Rightarrow> chat_state \<times> effect list" where
  "handleSubmit isAdmin random uploaded insert_ok s =
     (if (trim (newMessage s) = [] \<and> selectedFile s = None) \<or> userId s = None then (s, [])
      else
        (case userId s of
           None \<Rightarrow> (s, [])
         | Some uid \<Rightarrow>
             let failed = [ConsoleError ''Error sending message:'', ToastError ''Failed to send message''];
                 send = (\<lambda>before attachmentUrl attachmentType.
                   let row = \<lparr>nm_conversation_id = conversationId s, nm_user_id = uid,
                              nm_message = trim (newMessage s), nm_is_support = isAdmin,
                              nm_attachment_url = or_null attachmentUrl,
                              nm_attachment_type = or_null attachmentType\<rparr>
                   in if insert_ok
                      then (s\<lparr>newMessage := [], selectedFile := None, uploadProgress := 0\<rparr>,
                            before @ [InsertMessage row])
                      else (s, before @ [InsertMessage row] @ failed))
             in (case selectedFile s of
                   None \<Rightarrow> send [] [] []
                 | Some f \<Rightarrow>
                     (case uploaded of
                        None \<Rightarrow>
                          (s, [uploadFile random uid f, ConsoleError ''Error uploading file:''] @ failed)
                      | Some publicUrl \<Rightarrow> send [uploadFile random uid f] publicUrl (f_type f)))))"

section \<open>The typing-status table\<close>

text \<open>
  \<open>chat_typing_status\<close> has the primary key \<open>id\<close> (default \<open>gen_random_uuid()\<close>) and the
  constraint \<open>UNIQUE(conversation_id, user_id)\<close>. An upsert is
  \<open>INSERT ... ON CONFLICT (target) DO UPDATE\<close>: a row that collides with the new one on the
  target columns is updated in place; a collision on any other unique constraint is a
  unique violation (SQLSTATE 23505) and the statement changes nothing.
\<close>

datatype conflict_target = OnId | OnConversationUser

datatype pg_error = UniqueViolation | CheckViolation | OtherError

definition fresh_typing_id :: "typing_status list \<Rightarrow> uuid" where
  "fresh_typing_id tbl = Suc (fold max (map t_id tbl) 0)"

definition same_pair :: "uuid \<Rightarrow> uuid \<Rightarrow> typing_status \<Rightarrow> bool" where
  "same_pair cid uid r = (t_conversation_id r = cid \<and> t_user_id r = uid)"

text \<open>
  An upsert of \<open>{conversation_id, user_id, is_typing, last_updated}\<close>. The payload has no
  \<open>id\<close>, so the new row takes a fresh one and cannot collide on the primary key.
\<close>

definition upsert_typing ::
  "conflict_target \<Rightarrow> uuid \<Rightarrow> uuid \<Rightarrow> bool \<Rightarrow> timestamp \<Rightarrow> typing_status list
     \<Rightarrow> pg_error option \<times> typing_status list" where
  "upsert_typing target cid uid isTyping now tbl =
     (if list_ex (same_pair cid uid) tbl
      then (case target of
              OnConversationUser \<Rightarrow>
                (None, map (\<lambda>r. if same_pair cid uid r
                                 then r\<lparr>t_is_typing := isTyping, t_last_updated := now\<rparr> else r) tbl)
            | OnId \<Rightarrow> (Some UniqueViolation, tbl))
      else (None, tbl @ [\<lparr>t_id = fresh_typing_id tbl, t_conversation_id = cid, t_user_id = uid,
                           t_is_typing = isTyping, t_last_updated = now\<rparr>]))"

text \<open>
  The request \<open>updateTypingStatus\<close> sends is \<open>.upsert({...})\<close> with no \<open>onConflict\<close>
  option, for which the conflict target is the primary key. (The profile form's upsert
  names its target, \<open>onConflict: 'user_id'\<close>; the trigger function
  \<open>update_typing_status()\<close> of the migration names \<open>(conversation_id, user_id)\<close>.)
\<close>

definition client_upsert :: "uuid \<Rightarrow> uuid \<Rightarrow> bool \<Rightarrow> timestamp \<Rightarrow> typing_status list \<Rightarrow> pg_error option \<times> typing_status list" where
  "client_upsert = upsert_typing OnId"

definition update_typing_status :: "uuid \<Rightarrow> uuid \<Rightarrow> bool \<Rightarrow> timestamp \<Rightarrow> typing_status list \<Rightarrow> pg_error option \<times> typing_status list" where
  "update_typing_status = upsert_typing OnConversationUser"

text \<open>A sequence of the client's upserts \<open>(conversation, user, flag, time)\<close>, in order.\<close>

fun client_upserts :: "(uuid \<times> uuid \<times> bool \<times> timestamp) list \<Rightarrow> typing_status list \<Rightarrow> typing_status list" where
  "client_upserts [] tbl = tbl"
| "client_upserts ((cid, uid, isTyping, now) # us) tbl =
     client_upserts us (snd (client_upsert cid uid isTyping now tbl))"

text \<open>The rows stored for one (conversation, user) pair.\<close>

definition rows_of :: "uuid \<Rightarrow> uuid \<Rightarrow> typing_status list \<Rightarrow> typing_status list" where
  "rows_of cid uid tbl = filter (same_pair cid uid) tbl"

section \<open>The profile form\<close>

text \<open>
  \<open>new Date(s).getFullYear()\<close> for a date-only string: the string is read as midnight
  UTC and the year is taken in local time, so in a zone behind UTC (\<open>west\<close>) the first
  of January falls in the year before.
\<close>

definition getFullYear :: "bool \<Rightarrow> date \<Rightarrow> int" where
  "getFullYear west d = (if west \<and> d_month d = 1 \<and> d_day d = 1 then d_year d - 1 else d_year d)"

definition name_like_fails :: "nat \<Rightarrow> jsstring option \<Rightarrow> bool" where
  \<comment> \<open>\<open>!field?.trim() || field.length < n\<close>\<close>
  "name_like_fails n field = (case field of None \<Rightarrow> True | Some v \<Rightarrow> trim v = [] \<or> length v < n)"

definition income_fails :: "jsnumber option \<Rightarrow> bool" where
  \<comment> \<open>\<open>!income || income <= 0\<close>\<close>
  "income_fails income =
     (case income of None \<Rightarrow> True | Some NaN \<Rightarrow> True | Some (Num r) \<Rightarrow> r = 0 \<or> r \<le> 0)"

text \<open>
  The errors \<open>validateProfile\<close> collects; \<open>today\<close> is the local calendar date of
  \<open>new Date()\<close>.
\<close>

definition newErrors :: "bool \<Rightarrow> date \<Rightarrow> profile_form \<Rightarrow> validation_errors" where
  "newErrors west today p =
     \<lparr>e_full_name =
        (if name_like_fails 2 (full_name p)
         then Some ''Full name must be at least 2 characters long'' else None),
      e_phone =
        (if name_like_fails 10 (phone p)
         then Some ''Phone number must be at least 10 characters long'' else None),
      e_address =
        (if name_like_fails 5 (address p)
         then Some ''Address must be at least 5 characters long'' else None),
      e_date_of_birth =
        (case date_of_birth p of
           None \<Rightarrow> Some ''Date of birth is required''
         | Some birthDate \<Rightarrow>
             let age = d_year today - getFullYear west birthDate
             in if age < 18 then Some ''You must be at least 18 years old'' else None),
      e_monthly_income =
        (if income_fails (monthly_income p)
         then Some ''Monthly income must be greater than 0'' else None)\<rparr>"

definition validateProfile :: "bool \<Rightarrow> date \<Rightarrow> profile_form \<Rightarrow> bool" where
  "validateProfile west today p =
     (newErrors west today p =
        \<lparr>e_full_name = None, e_phone = None, e_address = None, e_date_of_birth = None,
         e_monthly_income = None\<rparr>)"

text \<open>The row \<open>handleSubmit\<close> upserts: the text fields trimmed, the others as they are.\<close>

definition updates :: "profile_form \<Rightarrow> profile_form" where
  "updates p = p\<lparr>full_name := map_option trim (full_name p),
                  address := map_option trim (address p),
                  phone := map_option trim (phone p)\<rparr>"

text \<open>
  The requests and notifications of \<open>fetchProfile\<close>, and of the form's \<open>handleSubmit\<close>.
  \<open>online\<close> is \<open>navigator.onLine\<close>, \<open>user\<close> the signed-in user, \<open>answer\<close> the error of
  the upsert if it has one, \<open>load_failed\<close> whether the select of the refresh fails with an
  error other than "no rows". The form's own state (\<open>loading\<close>, \<open>success\<close>, the refreshed
  fields) is left out.
\<close>

definition fetchProfile :: "bool \<Rightarrow> uuid option \<Rightarrow> bool \<Rightarrow> effect list" where
  "fetchProfile online user load_failed =
     (if \<not> online
      then [ToastError ''No internet connection. Please check your connection and try again.'']
      else (case user of
              None \<Rightarrow> [AuthGetUser, ToastError ''User session expired. Please log in again.'']
            | Some uid \<Rightarrow>
                [AuthGetUser, SelectProfile uid] @
                (if load_failed
                 then [ConsoleError ''Error fetching profile:'',
                       ToastError ''Failed to load profile data. Please try again.'']
                 else [])))"

definition profile_handleSubmit ::
  "bool \<Rightarrow> date \<Rightarrow> bool \<Rightarrow> uuid option \<Rightarrow> pg_error option \<Rightarrow> bool \<Rightarrow> profile_form
     \<Rightarrow> effect list" where
  "profile_handleSubmit west today online user answer load_failed p =
     (if \<not> validateProfile west today p then [ToastError ''Please fix the errors in the form'']
      else if \<not> online
      then [ConsoleError ''Error updating profile:'',
            ToastError ''Unable to update profile: No internet connection'']
      else (case user of
              None \<Rightarrow>
                [AuthGetUser, ConsoleError ''Error updating profile:'',
                 ToastError ''Unable to update profile: No user found'']
            | Some uid \<Rightarrow>
                [AuthGetUser, UpsertProfile uid (updates p)] @
                (case answer of
                   None \<Rightarrow>
                     ToastSuccess ''Profile updated successfully!'' #
                     fetchProfile online user load_failed
                 | Some CheckViolation \<Rightarrow>
                     [ToastError ''Please ensure all fields meet the minimum requirements'']
                 | Some UniqueViolation \<Rightarrow> [ToastError ''This profile already exists'']
                 | Some OtherError \<Rightarrow>
                     [ConsoleError ''Error updating profile:'',
                      ToastError ''Unable to update profile: ''])))"

text \<open>
  The \<open>profiles\<close> table's own age rule, from the migration:
  \<open>CHECK (date_of_birth <= CURRENT_DATE - INTERVAL '18 years')\<close>. Subtracting years keeps
  month and day, and moves the 29th of February to the 28th in a year that is not a leap
  year.
\<close>

definition leap_year :: "int \<Rightarrow> bool" where
  "leap_year y = ((y mod 4 = 0 \<and> y mod 100 \<noteq> 0) \<or> y mod 400 = 0)"

definition minus_years :: "int \<Rightarrow> date \<Rightarrow> date" where
  "minus_years n d =
     \<lparr>d_year = d_year d - n, d_month = d_month d,
      d_day = (if d_month d = 2 \<and> d_day d = 29 \<and> \<not> leap_year (d_year d - n) then 28 else d_day d)\<rparr>"

definition date_le :: "date \<Rightarrow> date \<Rightarrow> bool" where
  "date_le a b =
     (d_year a < d_year b \<or>
      (d_year a = d_year b \<and> (d_month a < d_month b \<or> (d_month a = d_month b \<and> d_day a \<le> d_day b))))"

definition age_check :: "date \<Rightarrow> date \<Rightarrow> bool" where
  "age_check current_date dob = date_le dob (minus_years 18 current_date)"

section \<open>The read mark\<close>

text \<open>
  \<open>markMessageAsRead\<close> sends
  \<open>update({read_at: now}).eq('id', messageId).is('read_at', null)\<close> to \<open>chat_messages\<close>.
  The table is the list of its rows; the statement rewrites every row that passes both
  filters and leaves the others as they are. Row-level security is not modelled.
\<close>

definition markMessageAsRead :: "timestamp \<Rightarrow> uuid \<Rightarrow> message list \<Rightarrow> message list" where
  "markMessageAsRead now messageId chat_messages =
     map (\<lambda>m. if m_id m = messageId \<and> m_read_at m = None
              then m\<lparr>m_read_at := Some now\<rparr> else m) chat_messages"

text \<open>The read timestamps stored for one message identity, in table order.\<close>

definition read_marks :: "uuid \<Rightarrow> message list \<Rightarrow> timestamp option list" where
  "read_marks messageId chat_messages =
     map m_read_at (filter (\<lambda>m. m_id m = messageId) chat_messages)"

definition first_mark :: "timestamp \<Rightarrow> timestamp option \<Rightarrow> timestamp option" where
  "first_mark now r = (case r of None \<Rightarrow> Some now | Some t \<Rightarrow> Some t)"

section \<open>Sample sessions\<close>

text \<open>
  An end user (identity 1) in conversation 10, a message of their own as the change feed
  delivers it, and the same screen with a draft of a space, a tab and a no-break space.
\<close>

definition viewer :: chat_state where
  "viewer = initial_state\<lparr>loading := False, conversationId := Some 10, userId := Some 1\<rparr>"

definition own_message :: message where
  "own_message =
     \<lparr>m_id = 5, m_conversation_id = 10, m_user_id = 1, m_message = [72, 105],
      m_is_support = False, m_created_at = 100, m_attachment_url = None,
      m_attachment_type = None, m_read_at = None\<rparr>"

definition blank_draft :: chat_state where
  "blank_draft = viewer\<lparr>newMessage := [32, 9, 160]\<rparr>"

text \<open>A PDF of 6 MiB, picked while the draft reads "Hi".\<close>

definition six_mib :: js_file where
  "six_mib = \<lparr>f_name = [97, 46, 112, 100, 102], f_size = 6 * 1024 * 1024, f_type = []\<rparr>"

definition hi_draft :: chat_state where
  "hi_draft = viewer\<lparr>newMessage := [72, 105]\<rparr>"

text \<open>
  Three backends, each with user 1 signed in: one with no profile row and no conversation;
  one whose profile row has an empty name and which holds one active conversation; one with
  a complete profile and two active conversations of user 1.
\<close>

definition newcomer_backend :: backend where
  "newcomer_backend = \<lparr>auth_user = Some 1, profiles = [], chat_conversations = []\<rparr>"

definition nameless_backend :: backend where
  "nameless_backend =
     \<lparr>auth_user = Some 1,
      profiles = [\<lparr>p_user_id = 1, p_full_name = Some [], p_is_admin = False\<rparr>],
      chat_conversations = [\<lparr>c_id = 7, c_user_id = 1, c_status = ''active''\<rparr>]\<rparr>"

definition doubled_backend :: backend where
  "doubled_backend =
     \<lparr>auth_user = Some 1,
      profiles = [\<lparr>p_user_id = 1, p_full_name = Some [65, 108], p_is_admin = False\<rparr>],
      chat_conversations =
        [\<lparr>c_id = 3, c_user_id = 1, c_status = ''active''\<rparr>,
         \<lparr>c_id = 4, c_user_id = 1, c_status = ''active''\<rparr>]\<rparr>"

text \<open>
  A profile form filled in on 15 June 2025 by "Jo", born 31 December 2007 (seventeen years
  old), with address "1 Main", a ten-digit phone number and an income of 1000.
\<close>

definition mid_june_2025 :: date where
  "mid_june_2025 = \<lparr>d_year = 2025, d_month = 6, d_day = 15\<rparr>"

definition end_of_2007 :: date where
  "end_of_2007 = \<lparr>d_year = 2007, d_month = 12, d_day = 31\<rparr>"

definition minor_applicant :: profile_form where
  "minor_applicant =
     \<lparr>full_name = Some [74, 111], address = Some [49, 32, 77, 97, 105, 110],
      phone = Some [48, 55, 48, 48, 49, 50, 51, 52, 53, 54],
      date_of_birth = Some end_of_2007,
      employment_status = Some [101, 109, 112, 108, 111, 121, 101, 100],
      monthly_income = Some (Num 1000)\<rparr>"

text \<open>
  A session of the end user's compose input in which every upsert settles before the next
  event: "h" is typed, the input loses focus, then "hi" is typed.
\<close>

definition typing_session :: "(event \<times> timestamp) list" where
  "typing_session = [(Change [104] 100, 110), (Blur 300, 310), (Change [104, 105] 500, 520)]"

text \<open>
  A session of fast typing: "h" at 100 and "hi" at 150, whose upserts settle at 160 and
  210, so that both calls of \<open>updateTypingStatus\<close> are at their \<open>await\<close> before either
  resumes; then "hi!" at 2000, its upsert settling at 2050.
\<close>

definition fast_typing :: "event list" where
  "fast_typing =
     [Change [104] 100, Change [104, 105] 150, Settled 0 160, Settled 0 210,
      Change [104, 105, 33] 2000, Settled 0 2050]"

section \<open>Properties of the read mark\<close>

lemma read_marks_markMessageAsRead:
  "read_marks messageId (markMessageAsRead now messageId tbl) =
     map (first_mark now) (read_marks messageId tbl)"
  by (induction tbl) (auto simp: read_marks_def markMessageAsRead_def first_mark_def)

lemma markMessageAsRead_twice:
  "markMessageAsRead t2 messageId (markMessageAsRead t1 messageId tbl) =
     markMessageAsRead t1 messageId tbl"
  by (induction tbl) (auto simp: markMessageAsRead_def)

text \<open>
  C2. Marking a message read moves an unset read timestamp to the time of the mark and
  keeps a timestamp that is already set; a second mark, at whatever later time, leaves the
  table exactly as the first mark left it.
\<close>

theorem C2_mark_read_idempotent:
  "markMessageAsRead t2 messageId (markMessageAsRead t1 messageId tbl) =
     markMessageAsRead t1 messageId tbl
   \<and> read_marks messageId (markMessageAsRead t1 messageId tbl) =
     map (first_mark t1) (read_marks messageId tbl)
   \<and> read_marks messageId (markMessageAsRead t2 messageId (markMessageAsRead t1 messageId tbl)) =
     map (first_mark t1) (read_marks messageId tbl)"
  by (simp add: markMessageAsRead_twice read_marks_markMessageAsRead)

section \<open>Properties of the message feed\<close>

lemma onMessageInsert_marks:
  "snd (onMessageInsert now payload s) = [MarkMessageAsRead (m_id payload) now]"
  by (simp add: onMessageInsert_def)

lemma fetchMessages_skips_own:
  "userId s = Some (m_user_id m) \<Longrightarrow>
   snd (fetchMessages now (Some [m]) s) = [SelectMessages (conversationId s)]"
  by (simp add: fetchMessages_def)

text \<open>
  C1. The claim is that a notification for a message the viewer sent produces no mark-read
  write. The subscription callback marks every message it is notified of: for the viewer's
  own message it calls \<open>markMessageAsRead\<close> all the same, where \<open>fetchMessages\<close>, given
  the same message, leaves it unmarked.
\<close>

theorem C1_own_message_is_marked:
  "userId viewer = Some (m_user_id own_message)
   \<and> snd (onMessageInsert 200 own_message viewer) = [MarkMessageAsRead 5 200]
   \<and> snd (fetchMessages 200 (Some [own_message]) viewer) = [SelectMessages (Some 10)]"
  by (simp add: onMessageInsert_def fetchMessages_def own_message_def viewer_def
      initial_state_def)

section \<open>Properties of the typing feed\<close>

lemma entries_onTypingStatus:
  "filter (\<lambda>e. t_user_id e = u) (typingStatus (onTypingStatus p s)) =
     (if t_user_id p = u then [p] else filter (\<lambda>e. t_user_id e = u) (typingStatus s))"
proof (cases "t_user_id p = u")
  case True
  then have "filter (\<lambda>x. t_user_id x \<noteq> t_user_id p \<and> t_user_id x = u) (typingStatus s) = []"
    by (simp add: filter_empty_conv)
  with True show ?thesis by (simp add: onTypingStatus_def)
next
  case False
  then have "filter (\<lambda>x. t_user_id x \<noteq> t_user_id p \<and> t_user_id x = u) (typingStatus s) =
      filter (\<lambda>e. t_user_id e = u) (typingStatus s)"
    by (intro filter_cong) auto
  with False show ?thesis by (simp add: onTypingStatus_def)
qed

lemma entries_fold_onTypingStatus:
  "filter (\<lambda>e. t_user_id e = u) (typingStatus (fold onTypingStatus ps s)) =
     (case rev (filter (\<lambda>p. t_user_id p = u) ps) of
        [] \<Rightarrow> filter (\<lambda>e. t_user_id e = u) (typingStatus s)
      | p # _ \<Rightarrow> [p])"
proof (induction ps rule: rev_induct)
  case Nil
  then show ?case by simp
next
  case (snoc p ps)
  then show ?case by (simp add: entries_onTypingStatus)
qed

text \<open>
  C10. Start from any state with an empty typing-status list and process the notifications
  \<open>ps\<close> in order. For every participant \<open>u\<close>, the entries of \<open>u\<close> in the list are: none,
  if no notification was for \<open>u\<close>; otherwise exactly one, the payload of the last
  notification for \<open>u\<close>.
\<close>

theorem C10_typing_list_latest_per_participant:
  "filter (\<lambda>e. t_user_id e = u)
     (typingStatus (fold onTypingStatus ps (s\<lparr>typingStatus := []\<rparr>))) =
   (case rev (filter (\<lambda>p. t_user_id p = u) ps) of [] \<Rightarrow> [] | p # _ \<Rightarrow> [p])"
  by (simp add: entries_fold_onTypingStatus split: list.split)

section \<open>Properties of attaching and sending\<close>

lemma dropWhile_all: "(\<forall>x\<in>set (dropWhile P xs). P x) \<longleftrightarrow> (\<forall>x\<in>set xs. P x)"
proof
  assume a: "\<forall>x\<in>set (dropWhile P xs). P x"
  have "dropWhile P xs = []"
  proof (rule ccontr)
    assume n: "dropWhile P xs \<noteq> []"
    then have "\<not> P (hd (dropWhile P xs))" by (rule hd_dropWhile)
    moreover have "hd (dropWhile P xs) \<in> set (dropWhile P xs)" using n by simp
    ultimately show False using a by blast
  qed
  then show "\<forall>x\<in>set xs. P x" by (simp add: dropWhile_eq_Nil_conv)
next
  assume "\<forall>x\<in>set xs. P x"
  then show "\<forall>x\<in>set (dropWhile P xs). P x" by (blast dest: set_dropWhileD)
qed

text \<open>A string trims to the empty string exactly when it is empty or all white space.\<close>

lemma trim_Nil_iff: "trim s = [] \<longleftrightarrow> (\<forall>c\<in>set s. is_white_space c)"
  by (simp add: trim_def dropWhile_eq_Nil_conv dropWhile_all)

text \<open>
  C5. When the draft is empty or consists of white space only and no file is staged,
  \<open>handleSubmit\<close> returns at once: it sends nothing (no upload, no insert), shows nothing
  and leaves the state as it is, whatever the caller's role and whatever the backend would
  have answered.
\<close>

theorem C5_blank_send_rejected:
  assumes "\<forall>c\<in>set (newMessage s). is_white_space c" and "selectedFile s = None"
  shows "handleSubmit isAdmin random uploaded insert_ok s = (s, [])"
  using assms by (simp add: handleSubmit_def trim_Nil_iff)

theorem C5_blank_send_rejected_witness:
  "handleSubmit False [107] None True blank_draft = (blank_draft, [])"
  by (rule C5_blank_send_rejected)
    (simp_all add: blank_draft_def viewer_def initial_state_def is_white_space_def white_space_def)

text \<open>
  C6. A picked file of more than \<open>5 * 1024 * 1024\<close> bytes is refused in
  \<open>handleFileSelect\<close>: the state (draft text, staged file and all the rest) is unchanged,
  and the only effect is the toast, so no upload and no other request is sent.
\<close>

theorem C6_oversized_file_rejected:
  assumes "f_size f > 5 * 1024 * 1024"
  shows "handleFileSelect (Some f) s = (s, [ToastError ''File size must be less than 5MB''])
    \<and> filter is_request (snd (handleFileSelect (Some f) s)) = []"
  using assms by (simp add: handleFileSelect_def)

theorem C6_oversized_file_rejected_witness:
  "handleFileSelect (Some six_mib) hi_draft =
     (hi_draft, [ToastError ''File size must be less than 5MB''])
   \<and> filter is_request (snd (handleFileSelect (Some six_mib) hi_draft)) = []"
  by (rule C6_oversized_file_rejected) (simp add: six_mib_def)

section \<open>Properties of \<open>setupChat\<close>\<close>

lemma setupChat_profile:
  "auth_user b = Some uid \<Longrightarrow> profile (fst (setupChat isAdmin ok b s)) = select_profile uid b"
  by (simp add: setupChat_def insert_conversation_def Let_def split: option.split)

lemma setupChat_effects:
  "auth_user b = Some uid \<Longrightarrow>
   snd (snd (setupChat False ok b s)) =
     [AuthGetUser, SelectProfile uid, SelectActiveConversation uid] @
     (if select_active_conversation uid b = None then [InsertConversation uid] else [])"
  by (simp add: setupChat_def insert_conversation_def Let_def split: option.split)

text \<open>
  C3, as the claim states it, fails: user 1 has no profile row, the chat shows the profile
  call-to-action, and \<open>setupChat\<close> has looked the conversation up and created one.
\<close>

theorem C3_lookup_and_create_before_gate:
  "no_full_name (select_profile 1 newcomer_backend)
   \<and> render False (fst (setupChat False True newcomer_backend initial_state)) =
       CompleteYourProfileFirst
   \<and> snd (snd (setupChat False True newcomer_backend initial_state)) =
       [AuthGetUser, SelectProfile 1, SelectActiveConversation 1, InsertConversation 1]
   \<and> chat_conversations (fst (snd (setupChat False True newcomer_backend initial_state))) =
       [\<lparr>c_id = 1, c_user_id = 1, c_status = ''active''\<rparr>]"
  by (simp add: setupChat_def newcomer_backend_def select_profile_def no_full_name_def
      render_def select_active_conversation_def active_conversations_def
      insert_conversation_def fresh_id_def initial_state_def Let_def)

text \<open>
  C3, amended. For a signed-in end user whose profile lookup yields no row or a row without
  a name, the chat renders the profile call-to-action in place of the thread and its
  compose form. The gate is part of rendering: \<open>setupChat\<close> has by then fetched the
  profile and looked up the active conversation, and has sent the insert of a new
  conversation if the lookup returned none.
\<close>

theorem C3_profile_gate:
  assumes "auth_user b = Some uid" and "no_full_name (select_profile uid b)"
  shows "render False (fst (setupChat False insert_ok b s)) = CompleteYourProfileFirst
    \<and> snd (snd (setupChat False insert_ok b s)) =
        [AuthGetUser, SelectProfile uid, SelectActiveConversation uid] @
        (if select_active_conversation uid b = None then [InsertConversation uid] else [])"
  using assms by (simp add: render_def setupChat_profile setupChat_effects)

theorem C3_profile_gate_witness:
  "render False (fst (setupChat False True nameless_backend initial_state)) =
     CompleteYourProfileFirst
   \<and> snd (snd (setupChat False True nameless_backend initial_state)) =
       [AuthGetUser, SelectProfile 1, SelectActiveConversation 1] @
       (if select_active_conversation 1 nameless_backend = None then [InsertConversation 1]
        else [])"
  by (rule C3_profile_gate)
    (simp_all add: nameless_backend_def select_profile_def no_full_name_def)

text \<open>
  The lookup-or-create of \<open>setupChat\<close>. With exactly one active conversation of the user
  in the table, that conversation is resolved and nothing is written.
\<close>

lemma setupChat_reuses_single_conversation:
  assumes "auth_user b = Some uid" and "active_conversations uid b = [c]"
  shows "conversationId (fst (setupChat False insert_ok b s)) = Some (c_id c)
    \<and> fst (snd (setupChat False insert_ok b s)) = b
    \<and> InsertConversation uid \<notin> set (snd (snd (setupChat False insert_ok b s)))"
  using assms by (simp add: setupChat_def select_active_conversation_def)

text \<open>
  With none, one is created; opening the chat again on the resulting table resolves the
  same conversation and writes nothing.
\<close>

lemma setupChat_create_then_reuse:
  assumes "auth_user b = Some uid" and "active_conversations uid b = []"
  shows "case setupChat False True b s of (s1, b1, effects1) \<Rightarrow>
           InsertConversation uid \<in> set effects1
         \<and> conversationId s1 = Some (fresh_id (chat_conversations b))
         \<and> (case setupChat False insert_ok b1 s' of (s2, b2, effects2) \<Rightarrow>
               conversationId s2 = conversationId s1 \<and> b2 = b1
             \<and> InsertConversation uid \<notin> set effects2)"
  using assms
  by (simp add: setupChat_def select_active_conversation_def insert_conversation_def Let_def
      active_conversations_def)

text \<open>
  Two opens of the chat that overlap (both lookups answered before either insert is
  carried out) leave two active conversations of the user: the table accepts the second
  row.
\<close>

lemma overlapping_opens_create_two:
  "select_active_conversation 1 newcomer_backend = None
   \<and> active_conversations 1
       (snd (insert_conversation True 1 (snd (insert_conversation True 1 newcomer_backend)))) =
     [\<lparr>c_id = 1, c_user_id = 1, c_status = ''active''\<rparr>,
      \<lparr>c_id = 2, c_user_id = 1, c_status = ''active''\<rparr>]"
  by (simp add: newcomer_backend_def select_active_conversation_def active_conversations_def
      insert_conversation_def fresh_id_def Let_def)

text \<open>
  C7. The claim is that opening the chat creates a conversation only when the user has no
  active one. \<open>.single()\<close> yields no row also when several match, and \<open>setupChat\<close>
  reads that as "none exists": with two active conversations of user 1 in the table (no
  constraint excludes it) opening the chat inserts a third and resolves to the new one.
\<close>

theorem C7_third_conversation_created:
  "active_conversations 1 doubled_backend =
     [\<lparr>c_id = 3, c_user_id = 1, c_status = ''active''\<rparr>,
      \<lparr>c_id = 4, c_user_id = 1, c_status = ''active''\<rparr>]
   \<and> snd (snd (setupChat False True doubled_backend initial_state)) =
       [AuthGetUser, SelectProfile 1, SelectActiveConversation 1, InsertConversation 1]
   \<and> conversationId (fst (setupChat False True doubled_backend initial_state)) = Some 5
   \<and> active_conversations 1 (fst (snd (setupChat False True doubled_backend initial_state))) =
       [\<lparr>c_id = 3, c_user_id = 1, c_status = ''active''\<rparr>,
        \<lparr>c_id = 4, c_user_id = 1, c_status = ''active''\<rparr>,
        \<lparr>c_id = 5, c_user_id = 1, c_status = ''active''\<rparr>]"
  by (simp add: setupChat_def doubled_backend_def select_profile_def
      select_active_conversation_def active_conversations_def insert_conversation_def
      fresh_id_def initial_state_def Let_def)

section \<open>Properties of the typing-status table\<close>

lemma list_ex_rows_of: "list_ex (same_pair cid uid) tbl \<longleftrightarrow> rows_of cid uid tbl \<noteq> []"
  by (simp add: rows_of_def list_ex_iff filter_empty_conv)

lemma rows_of_client_upsert:
  "rows_of c u (snd (client_upsert cid uid f now tbl)) =
     (if c = cid \<and> u = uid \<and> rows_of c u tbl = []
      then [\<lparr>t_id = fresh_typing_id tbl, t_conversation_id = cid, t_user_id = uid,
             t_is_typing = f, t_last_updated = now\<rparr>]
      else rows_of c u tbl)"
  by (auto simp: client_upsert_def upsert_typing_def list_ex_rows_of)
    (auto simp: rows_of_def same_pair_def)

text \<open>The client's upserts never leave more than one row for a pair.\<close>

lemma client_upserts_one_row:
  "length (rows_of c u tbl) \<le> 1 \<Longrightarrow> length (rows_of c u (client_upserts us tbl)) \<le> 1"
proof (induction us arbitrary: tbl)
  case Nil
  then show ?case by simp
next
  case (Cons x us)
  obtain cid uid f now where x: "x = (cid, uid, f, now)" by (cases x) auto
  have "length (rows_of c u (snd (client_upsert cid uid f now tbl))) \<le> 1"
    using Cons.prems by (simp add: rows_of_client_upsert)
  then show ?case using Cons.IH x by simp
qed

text \<open>An upsert on \<open>(conversation_id, user_id)\<close>, as the trigger function does it, sets the flag.\<close>

lemma rows_of_update_typing_status:
  "rows_of cid uid (snd (update_typing_status cid uid f now tbl)) =
     (if rows_of cid uid tbl = []
      then [\<lparr>t_id = fresh_typing_id tbl, t_conversation_id = cid, t_user_id = uid,
             t_is_typing = f, t_last_updated = now\<rparr>]
      else map (\<lambda>r. r\<lparr>t_is_typing := f, t_last_updated := now\<rparr>) (rows_of cid uid tbl))"
proof -
  have "filter (same_pair cid uid)
          (map (\<lambda>r. if same_pair cid uid r then r\<lparr>t_is_typing := f, t_last_updated := now\<rparr>
                    else r) xs) =
        map (\<lambda>r. r\<lparr>t_is_typing := f, t_last_updated := now\<rparr>) (filter (same_pair cid uid) xs)"
    for xs
    by (induction xs) (auto simp: same_pair_def)
  then show ?thesis
    by (auto simp: update_typing_status_def upsert_typing_def list_ex_rows_of)
      (auto simp: rows_of_def same_pair_def)
qed

text \<open>
  C9. The claim is that the stored row's flag is that of the most recent upsert. The
  client's upsert names no conflict target, so the second upsert for a pair is an insert
  that violates \<open>UNIQUE(conversation_id, user_id)\<close>: user 1 starts typing in conversation
  10 at time 100 and stops at 200; the second upsert is rejected and the single stored row
  still says "typing". An upsert on the pair, as in \<open>update_typing_status()\<close>, would have
  stored False.
\<close>

theorem C9_second_upsert_rejected:
  "client_upserts [(10, 1, True, 100)] [] =
     [\<lparr>t_id = 1, t_conversation_id = 10, t_user_id = 1, t_is_typing = True,
       t_last_updated = 100\<rparr>]
   \<and> client_upsert 10 1 False 200 (client_upserts [(10, 1, True, 100)] []) =
     (Some UniqueViolation,
      [\<lparr>t_id = 1, t_conversation_id = 10, t_user_id = 1, t_is_typing = True,
        t_last_updated = 100\<rparr>])
   \<and> map t_is_typing
       (rows_of 10 1 (client_upserts [(10, 1, True, 100), (10, 1, False, 200)] [])) = [True]
   \<and> map t_is_typing
       (rows_of 10 1
         (snd (update_typing_status 10 1 False 200 (client_upserts [(10, 1, True, 100)] [])))) =
       [False]"
  by (simp add: client_upsert_def upsert_typing_def same_pair_def fresh_typing_id_def
      rows_of_def update_typing_status_def)

section \<open>Properties of the profile form\<close>

text \<open>
  A field that is too short, a date of birth that is missing or whose year is less than 18
  before this year, or an income that is missing, \<open>NaN\<close> or not above 0: the submission stops
  at the validation toast, before any request.
\<close>

lemma profile_rules_reject:
  assumes "(case full_name p of None \<Rightarrow> True | Some v \<Rightarrow> length v < 2)
     \<or> (case phone p of None \<Rightarrow> True | Some v \<Rightarrow> length v < 10)
     \<or> (case address p of None \<Rightarrow> True | Some v \<Rightarrow> length v < 5)
     \<or> (case date_of_birth p of None \<Rightarrow> True
         | Some d \<Rightarrow> d_year today - getFullYear west d < 18)
     \<or> (case monthly_income p of None \<Rightarrow> True | Some NaN \<Rightarrow> True | Some (Num r) \<Rightarrow> r \<le> 0)"
  shows "profile_handleSubmit west today online user answer load_failed p =
    [ToastError ''Please fix the errors in the form'']"
proof -
  have "\<not> validateProfile west today p"
    using assms
    by (auto simp: validateProfile_def newErrors_def name_like_fails_def income_fails_def Let_def
        split: option.splits jsnumber.splits if_splits)
  then show ?thesis by (simp add: profile_handleSubmit_def)
qed

text \<open>
  C4. The claim is that an applicant under 18 is rejected with no store write.
  \<open>validateProfile\<close> takes the age to be the difference of the calendar years, so on
  15 June 2025 an applicant born on 31 December 2007 counts as 18: the form validates, and
  \<open>handleSubmit\<close> sends the upsert. The table's own rule \<open>age_check\<close> does not hold for
  that date of birth.
\<close>

theorem C4_minor_passes_validation:
  "validateProfile False mid_june_2025 minor_applicant
   \<and> \<not> age_check mid_june_2025 end_of_2007
   \<and> profile_handleSubmit False mid_june_2025 True (Some 1) (Some CheckViolation) False
       minor_applicant =
     [AuthGetUser, UpsertProfile 1 minor_applicant,
      ToastError ''Please ensure all fields meet the minimum requirements'']"
  by (simp add: validateProfile_def newErrors_def mid_june_2025_def end_of_2007_def
      minor_applicant_def name_like_fails_def trim_def is_white_space_def white_space_def
      income_fails_def getFullYear_def age_check_def date_le_def minus_years_def
      profile_handleSubmit_def updates_def)

section \<open>Properties of the typing flag and its timer\<close>

text \<open>
  Without a resolved conversation or user the call returns at its guard: nothing is sent,
  no timer is touched.
\<close>

lemma updateTypingStatus_guard:
  "conversationId s = None \<or> userId s = None \<Longrightarrow> updateTypingStatus isTyping now s = (s, [])"
  by (auto simp: updateTypingStatus_def updateTypingStatus_of_def split: option.splits)

text \<open>
  From a state where ref and timer table agree, a call followed by the settling of its
  upsert sends the upsert, leaves the new timer as the only one (or none, for
  \<open>isTyping\<close> false), and the two agree again.
\<close>

lemma call_then_settle:
  assumes "tracked c u s"
  shows "snd (updateTypingStatus_of (Some c) (Some u) isTyping now s) =
           [UpsertTypingStatus c u isTyping now]"
    and "timers (resume 0 settled (fst (updateTypingStatus_of (Some c) (Some u) isTyping now s))) =
           (if isTyping
            then [\<lparr>tm_id = next_timer s, tm_due = settled + 3000, tm_conversation = c, tm_user = u\<rparr>]
            else [])"
    and "tracked c u (resume 0 settled (fst (updateTypingStatus_of (Some c) (Some u) isTyping now s)))"
  using assms
  by (auto simp: tracked_def updateTypingStatus_of_def cancel_pending_def arm_def clearTimeout_def
      resume_def Let_def split: list.splits option.splits)

lemma tracked_newMessage: "tracked c u (s\<lparr>newMessage := v\<rparr>) = tracked c u s"
  by (simp add: tracked_def split: list.split)

lemma onChange_eq:
  "tracked c u s \<Longrightarrow>
   onChange v now s = updateTypingStatus_of (Some c) (Some u) (v \<noteq> []) now (s\<lparr>newMessage := v\<rparr>)"
  by (simp add: onChange_def updateTypingStatus_def tracked_def)

lemma onBlur_eq:
  "tracked c u s \<Longrightarrow> onBlur now s = updateTypingStatus_of (Some c) (Some u) False now s"
  by (simp add: onBlur_def updateTypingStatus_def tracked_def)

lemma resume_idle: "awaiting s = [] \<Longrightarrow> resume n now s = s"
  by (simp add: resume_def)

lemma onTimeout_cases:
  assumes "tracked c u s"
  shows "onTimeout h now s = (s, []) \<or>
    (\<exists>t. timers s = [t] \<and> tm_id t = h \<and> tm_due t \<le> now \<and>
       onTimeout h now s = updateTypingStatus_of (Some c) (Some u) False now (clearTimeout h s)
       \<and> tracked c u (clearTimeout h s))"
proof (cases "find (\<lambda>t. tm_id t = h \<and> tm_due t \<le> now) (timers s)")
  case None
  then show ?thesis by (simp add: onTimeout_def)
next
  case (Some t)
  then have mem: "t \<in> set (timers s)" and h: "tm_id t = h" and due: "tm_due t \<le> now"
    by (auto simp: find_Some_iff)
  from mem assms have ts: "timers s = [t]"
    by (auto simp: tracked_def split: list.splits)
  have ids: "tm_conversation t = c" "tm_user t = u" using assms ts by (simp_all add: tracked_def)
  have "tracked c u (clearTimeout h s)" using assms ts h by (simp add: tracked_def clearTimeout_def)
  then show ?thesis using Some ids ts h due by (simp add: onTimeout_def)
qed

lemma step_tracked:
  assumes "tracked c u s"
  shows "tracked c u (resume 0 settled (fst (handle e s)))"
proof (cases e)
  case (Change v now)
  have "tracked c u (s\<lparr>newMessage := v\<rparr>)" using assms by (simp add: tracked_newMessage)
  then show ?thesis using Change assms by (simp add: onChange_eq call_then_settle(3))
next
  case (Blur now)
  then show ?thesis using assms by (simp add: onBlur_eq call_then_settle(3))
next
  case (Timeout h now)
  from onTimeout_cases[OF assms, of h now] show ?thesis
  proof
    assume "onTimeout h now s = (s, [])"
    then show ?thesis using Timeout assms by (simp add: resume_idle tracked_def)
  next
    assume "\<exists>t. timers s = [t] \<and> tm_id t = h \<and> tm_due t \<le> now \<and>
       onTimeout h now s = updateTypingStatus_of (Some c) (Some u) False now (clearTimeout h s)
       \<and> tracked c u (clearTimeout h s)"
    then show ?thesis using Timeout by (auto simp: call_then_settle(3))
  qed
next
  case (Settled n now)
  then show ?thesis using assms by (simp add: resume_idle tracked_def)
qed

lemma run_serial_tracked: "tracked c u s \<Longrightarrow> tracked c u (run (serial es) s)"
proof (induction es arbitrary: s)
  case Nil
  then show ?case by simp
next
  case (Cons x es)
  obtain e settled where x: "x = (e, settled)" by (cases x)
  have "tracked c u (resume 0 settled (fst (handle e s)))" by (rule step_tracked[OF Cons.prems])
  then have "tracked c u (run (serial es) (resume 0 settled (fst (handle e s))))" by (rule Cons.IH)
  then show ?case using x by simp
qed

lemma call_cancels:
  assumes "tracked c u s"
  shows "timers (fst (updateTypingStatus_of (Some c) (Some u) isTyping now s)) = []"
  using assms
  by (auto simp: tracked_def updateTypingStatus_of_def cancel_pending_def clearTimeout_def
      Let_def split: list.splits option.splits)

text \<open>
  In a session where no two calls overlap, the typing flag and its timer behave as a
  debounce. A change that leaves the input non-empty sends the upsert to true, and once it
  has settled exactly one timer is armed, due 3000 ms later; when that timer fires, the
  upsert to false is sent and no timer remains. A change that empties the input, and a loss
  of focus, send the upsert to false and leave no timer armed.
\<close>

lemma serial_typing:
  assumes "tracked c u s0" and "v \<noteq> []" and "settled + 3000 \<le> later"
  shows "snd (onChange v now (run (serial es) s0)) = [UpsertTypingStatus c u True now]
    \<and> timers (resume 0 settled (fst (onChange v now (run (serial es) s0)))) =
        [\<lparr>tm_id = next_timer (run (serial es) s0), tm_due = settled + 3000,
          tm_conversation = c, tm_user = u\<rparr>]
    \<and> snd (onTimeout (next_timer (run (serial es) s0)) later
             (resume 0 settled (fst (onChange v now (run (serial es) s0))))) =
        [UpsertTypingStatus c u False later]
    \<and> timers (fst (onTimeout (next_timer (run (serial es) s0)) later
             (resume 0 settled (fst (onChange v now (run (serial es) s0)))))) = []
    \<and> snd (onChange [] now (run (serial es) s0)) = [UpsertTypingStatus c u False now]
    \<and> timers (resume 0 settled (fst (onChange [] now (run (serial es) s0)))) = []
    \<and> snd (onBlur now (run (serial es) s0)) = [UpsertTypingStatus c u False now]
    \<and> timers (resume 0 settled (fst (onBlur now (run (serial es) s0)))) = []"
proof -
  let ?s = "run (serial es) s0"
  let ?k = "resume 0 settled (fst (onChange v now ?s))"
  let ?t = "\<lparr>tm_id = next_timer ?s, tm_due = settled + 3000, tm_conversation = c, tm_user = u\<rparr>"
  have t: "tracked c u ?s" by (rule run_serial_tracked[OF assms(1)])
  have tv: "tracked c u (?s\<lparr>newMessage := w\<rparr>)" for w using t by (simp add: tracked_newMessage)
  have a: "snd (onChange v now ?s) = [UpsertTypingStatus c u True now]"
    using call_then_settle(1)[OF tv] assms(2) by (simp add: onChange_eq[OF t])
  have b: "timers ?k = [?t]"
    using call_then_settle(2)[OF tv] assms(2)
    by (simp add: onChange_eq[OF t])
  have k: "tracked c u ?k"
    using call_then_settle(3)[OF tv] by (simp add: onChange_eq[OF t])
  have fire: "onTimeout (next_timer ?s) later ?k =
      updateTypingStatus_of (Some c) (Some u) False later (clearTimeout (next_timer ?s) ?k)"
    using b assms(3) by (simp add: onTimeout_def)
  have kc: "tracked c u (clearTimeout (next_timer ?s) ?k)"
    using k b by (simp add: tracked_def clearTimeout_def)
  have c: "snd (onTimeout (next_timer ?s) later ?k) = [UpsertTypingStatus c u False later]"
    unfolding fire by (rule call_then_settle(1)[OF kc])
  have d: "timers (fst (onTimeout (next_timer ?s) later ?k)) = []"
    unfolding fire by (rule call_cancels[OF kc])
  have e: "snd (onChange [] now ?s) = [UpsertTypingStatus c u False now]"
    using call_then_settle(1)[OF tv] by (simp add: onChange_eq[OF t])
  have f: "timers (resume 0 settled (fst (onChange [] now ?s))) = []"
    using call_then_settle(2)[OF tv] by (simp add: onChange_eq[OF t])
  have g: "snd (onBlur now ?s) = [UpsertTypingStatus c u False now]"
    using call_then_settle(1)[OF t] by (simp add: onBlur_eq[OF t])
  have h: "timers (resume 0 settled (fst (onBlur now ?s))) = []"
    using call_then_settle(2)[OF t] by (simp add: onBlur_eq[OF t])
  from a b c d e f g h show ?thesis by simp
qed

text \<open>The sample session leaves the timer of its last keystroke armed, due at 3520.\<close>

lemma typing_session_timers:
  "timers (run (serial typing_session) viewer) =
     [\<lparr>tm_id = 2, tm_due = 3520, tm_conversation = 10, tm_user = 1\<rparr>]"
  by (simp add: typing_session_def viewer_def initial_state_def onChange_def onBlur_def
      updateTypingStatus_def updateTypingStatus_of_def cancel_pending_def arm_def resume_def
      clearTimeout_def Let_def)

text \<open>
  C8. The claim is that the timer is cancelled and rearmed on every keystroke, and that the
  flag is upserted to false when the timer expires with no intervening keystroke. When two
  calls of \<open>updateTypingStatus\<close> overlap this fails: the \<open>clearTimeout\<close> of the second
  keystroke runs before the first call has armed its timer, and the ref then moves on to
  the second timer, so no later \<open>clearTimeout\<close> reaches the first. In the session of fast
  typing, timer 1 survives the keystrokes at 150 and at 2000; it fires at 3160, which is
  1160 ms after the last keystroke, sends the upsert to false, and cancels timer 3, the
  one the last keystroke armed.
\<close>

theorem C8_first_timer_is_never_cancelled:
  "timers (run (take 4 fast_typing) viewer) =
     [\<lparr>tm_id = 1, tm_due = 3160, tm_conversation = 10, tm_user = 1\<rparr>,
      \<lparr>tm_id = 2, tm_due = 3210, tm_conversation = 10, tm_user = 1\<rparr>]
   \<and> timers (run fast_typing viewer) =
     [\<lparr>tm_id = 1, tm_due = 3160, tm_conversation = 10, tm_user = 1\<rparr>,
      \<lparr>tm_id = 3, tm_due = 5050, tm_conversation = 10, tm_user = 1\<rparr>]
   \<and> typingTimeoutRef (run fast_typing viewer) = Some 3
   \<and> newMessage (run fast_typing viewer) = [104, 105, 33]
   \<and> snd (handle (Timeout 1 3160) (run fast_typing viewer)) =
     [UpsertTypingStatus 10 1 False 3160]
   \<and> timers (fst (handle (Timeout 1 3160) (run fast_typing viewer))) = []"
  by (simp add: fast_typing_def viewer_def initial_state_def onChange_def onTimeout_def
      updateTypingStatus_def updateTypingStatus_of_def cancel_pending_def arm_def resume_def
      clearTimeout_def Let_def)

end
